theory Spec2Isabelle
  imports Complex_Main
begin

section \<open>The loyalty tracker of stockholm\_syndrome\_loyalty\_simulator.py\<close>

text \<open>
  The class \<^verbatim>\<open>LoyaltyTracker\<close> holds a name, a history (a list of metric
  dictionaries) and a fixed dictionary of loyalty states. Its method
  \<^verbatim>\<open>calculate_metrics\<close> derives one metric dictionary from three numbers, and
  \<^verbatim>\<open>add_measurement\<close> appends that dictionary to the history.

  Numbers. The arguments are Python numbers. A float is either finite, an infinity or
  NaN, and the first three lines of \<^verbatim>\<open>calculate_metrics\<close> behave differently on
  each, so the arguments have the type \<open>pyfloat\<close> below; \<open>Fin x\<close> is a finite
  \<^verbatim>\<open>int\<close> or \<^verbatim>\<open>float\<close> of value \<open>x\<close>. After those three lines every value
  is finite and lies between 0 and 10. From there on a number is the real value of an
  IEEE double, and every operation of the source is the exact operation followed by
  rounding to the nearest double, a tie going to the even mantissa (\<open>fl\<close> below). No
  value of the method exceeds 100, so no operation overflows.
\<close>

subsection \<open>Python numbers and the built-ins min and max\<close>

datatype pyfloat = Fin real | PosInf | NegInf | NaN

text \<open>The comparison \<^verbatim>\<open>a < b\<close>: every comparison with NaN is false.\<close>

fun py_lt :: "pyfloat \<Rightarrow> pyfloat \<Rightarrow> bool" where
  "py_lt NaN b = False"
| "py_lt a NaN = False"
| "py_lt (Fin a) (Fin b) = (a < b)"
| "py_lt (Fin a) PosInf = True"
| "py_lt (Fin a) NegInf = False"
| "py_lt PosInf b = False"
| "py_lt NegInf NegInf = False"
| "py_lt NegInf b = True"

text \<open>
  The built-ins with two arguments keep the first argument unless the second one is
  strictly smaller (\<^verbatim>\<open>min\<close>) or strictly larger (\<^verbatim>\<open>max\<close>).
\<close>

definition py_min :: "pyfloat \<Rightarrow> pyfloat \<Rightarrow> pyfloat" where
  "py_min a b = (if py_lt b a then b else a)"

definition py_max :: "pyfloat \<Rightarrow> pyfloat \<Rightarrow> pyfloat" where
  "py_max a b = (if py_lt a b then b else a)"

text \<open>
  \<^verbatim>\<open>max(0, min(10, x))\<close>, lines 21 to 23. The result is always finite, so it is
  given as a real; \<open>clamp_is_python\<close> below shows that it is the value of the
  Python expression for every argument.
\<close>

fun clamp :: "pyfloat \<Rightarrow> real" where
  "clamp (Fin x) = max 0 (min 10 x)"
| "clamp PosInf = 10"
| "clamp NegInf = 0"
| "clamp NaN = 10"

subsection \<open>Double precision arithmetic\<close>

text \<open>The number of binary digits of a natural number, \<^verbatim>\<open>int.bit_length\<close>.\<close>

fun bit_length :: "nat \<Rightarrow> nat" where
  "bit_length n = (if n = 0 then 0 else Suc (bit_length (n div 2)))"

declare bit_length.simps [simp del]

text \<open>
  The binary exponent of a positive real \<open>x\<close>: the integer \<open>e\<close> with
  \<open>2\<^sup>e \<le> x < 2\<^sup>e\<^sup>+\<^sup>1\<close> (\<open>exponent_bounds\<close> below).
\<close>

definition exponent :: "real \<Rightarrow> int" where
  "exponent x =
     (if 1 \<le> x then int (bit_length (nat \<lfloor>x\<rfloor>)) - 1
      else - int (bit_length (nat (\<lceil>1 / x\<rceil> - 1))))"

text \<open>
  The distance between neighbouring doubles at \<open>x\<close>: 52 binary digits below the leading
  one, and the spacing of the subnormal numbers below \<open>2\<^sup>-\<^sup>1\<^sup>0\<^sup>2\<^sup>2\<close>.
\<close>

definition ulp :: "real \<Rightarrow> real" where
  "ulp x = 2 powi (max (exponent \<bar>x\<bar>) (- 1022) - 52)"

text \<open>Rounding to the nearest integer, a tie going to the even one.\<close>

definition round_half_even :: "real \<Rightarrow> int" where
  "round_half_even x =
     (let f = \<lfloor>x\<rfloor>; r = x - of_int f
      in if r < 1 / 2 then f
         else if 1 / 2 < r then f + 1
         else if even f then f else f + 1)"

text \<open>Rounding a real to the nearest double.\<close>

definition fl :: "real \<Rightarrow> real" where
  "fl x = (if x = 0 then 0 else of_int (round_half_even (x / ulp x)) * ulp x)"

text \<open>The operators \<^verbatim>\<open>+\<close>, \<^verbatim>\<open>-\<close>, \<^verbatim>\<open>*\<close> and \<^verbatim>\<open>/\<close> on floats.\<close>

definition fadd :: "real \<Rightarrow> real \<Rightarrow> real" where
  "fadd a b = fl (a + b)"

definition fsub :: "real \<Rightarrow> real \<Rightarrow> real" where
  "fsub a b = fl (a - b)"

definition fmul :: "real \<Rightarrow> real \<Rightarrow> real" where
  "fmul a b = fl (a * b)"

definition fdiv :: "real \<Rightarrow> real \<Rightarrow> real" where
  "fdiv a b = fl (a / b)"

text \<open>
  \<^verbatim>\<open>round(x, n)\<close> on a float: the exact value of \<open>x\<close> is rounded to \<open>n\<close> decimal
  places, a tie going to the even neighbour, and the result is the double nearest to
  that decimal.
\<close>

definition py_round :: "real \<Rightarrow> nat \<Rightarrow> real" where
  "py_round x n = fl (of_int (round_half_even (x * 10 ^ n)) / 10 ^ n)"

subsection \<open>The data\<close>

text \<open>One entry of \<^verbatim>\<open>self.loyalty_states\<close>.\<close>

record state_props =
  color :: string
  threshold :: int

text \<open>The dictionary that \<^verbatim>\<open>calculate_metrics\<close> returns.\<close>

record metrics =
  timestamp :: int
  satisfaction :: real
  true_satisfaction :: real
  dependency :: real
  manipulation :: real
  emotional_vulnerability :: real
  autonomy :: real
  power_imbalance :: real
  health_score :: real
  loyalty_state :: string
  risk_factors :: "string list"

text \<open>
  The object. \<^verbatim>\<open>loyalty_states\<close> is a dictionary that the code iterates in
  insertion order, so it is an association list.
\<close>

record tracker =
  name :: string
  history :: "metrics list"
  loyalty_states :: "(string \<times> state_props) list"

subsection \<open>The methods\<close>

text \<open>\<^verbatim>\<open>__init__\<close>, lines 7 to 16.\<close>

definition init :: "string \<Rightarrow> tracker" where
  "init nm =
     \<lparr> name = nm,
       history = [],
       loyalty_states =
         [ (''Healthy'', \<lparr> color = ''#2ecc71'', threshold = 75 \<rparr>),
           (''Stable'', \<lparr> color = ''#3498db'', threshold = 60 \<rparr>),
           (''At Risk'', \<lparr> color = ''#f1c40f'', threshold = 50 \<rparr>),
           (''Unstable'', \<lparr> color = ''#e67e22'', threshold = 40 \<rparr>),
           (''Toxic'', \<lparr> color = ''#e74c3c'', threshold = 0 \<rparr>) ] \<rparr>"

text \<open>
  The loop of lines 47 to 51: \<open>dflt\<close> is the value of \<^verbatim>\<open>loyalty_state\<close>
  before the loop, which the first entry whose threshold the score reaches replaces;
  the \<^verbatim>\<open>break\<close> ends the loop there.
\<close>

fun determine_state :: "(string \<times> state_props) list \<Rightarrow> real \<Rightarrow> string \<Rightarrow> string" where
  "determine_state [] hs dflt = dflt"
| "determine_state ((state, props) # rest) hs dflt =
     (if of_int (threshold props) \<le> hs then state else determine_state rest hs dflt)"

text \<open>
  \<^verbatim>\<open>calculate_metrics\<close>, lines 18 to 65. A primed name is the local variable. A
  decimal literal of the source is the double nearest to it, \<open>fl 0.7\<close> for
  \<^verbatim>\<open>0.7\<close>; the integer literals are doubles as they stand.
\<close>

definition calculate_metrics :: "tracker \<Rightarrow> pyfloat \<Rightarrow> pyfloat \<Rightarrow> pyfloat \<Rightarrow> metrics" where
  "calculate_metrics self s_arg d_arg m_arg =
     (let satisfaction' = clamp s_arg;
          dependency' = clamp d_arg;
          manipulation' = clamp m_arg;
          true_satisfaction' = fmul satisfaction' (fsub 1 (fdiv manipulation' 15));
          emotional_vulnerability' =
            min 10 (fadd (fmul dependency' (fl 0.7)) (fmul manipulation' (fl 0.3)));
          autonomy' =
            max 0 (fsub 10 (fadd (fmul dependency' (fl 0.5)) (fmul manipulation' (fl 0.5))));
          power_imbalance' =
            min 10 (fadd (fmul manipulation' (fl 0.6)) (fmul dependency' (fl 0.4)));
          health_score' =
            fadd
              (fadd
                (fadd (fmul (fdiv true_satisfaction' 10) 30)
                      (fmul (fdiv autonomy' 10) 25))
                (fmul (fdiv (fsub 10 dependency') 10) 25))
              (fmul (fdiv (fsub 10 power_imbalance') 10) 20);
          risk_factors' =
            (if 6 < manipulation' then [''High Manipulation''] else [])
            @ (if 7 < dependency' then [''High Dependency''] else [])
            @ (if true_satisfaction' < 4 then [''Low Satisfaction''] else [])
            @ (if autonomy' < 3 then [''Low Autonomy''] else []);
          loyalty_state' = determine_state (loyalty_states self) health_score' ''Toxic''
      in \<lparr> timestamp = int (length (history self)) + 1,
           satisfaction = satisfaction',
           true_satisfaction = py_round true_satisfaction' 2,
           dependency = dependency',
           manipulation = manipulation',
           emotional_vulnerability = py_round emotional_vulnerability' 2,
           autonomy = py_round autonomy' 2,
           power_imbalance = py_round power_imbalance' 2,
           health_score = py_round health_score' 1,
           loyalty_state = loyalty_state',
           risk_factors = risk_factors' \<rparr>)"

text \<open>
  \<^verbatim>\<open>add_measurement\<close>, lines 67 to 70. The method has no \<^verbatim>\<open>return\<close>
  statement, so the caller receives \<^verbatim>\<open>None\<close>; the model returns that value
  together with the object after the call.
\<close>

datatype 'a py_value = PyNone | PyObj 'a

definition add_measurement ::
  "tracker \<Rightarrow> pyfloat \<Rightarrow> pyfloat \<Rightarrow> pyfloat \<Rightarrow> metrics py_value \<times> tracker" where
  "add_measurement self s_arg d_arg m_arg =
     (let metrics' = calculate_metrics self s_arg d_arg m_arg
      in (PyNone, self\<lparr> history := history self @ [metrics'] \<rparr>))"

text \<open>The loop of lines 249 and 250: one call for each triple, in order.\<close>

fun add_all :: "tracker \<Rightarrow> (pyfloat \<times> pyfloat \<times> pyfloat) list \<Rightarrow> tracker" where
  "add_all self [] = self"
| "add_all self ((s, d, m) # rest) = add_all (snd (add_measurement self s d m)) rest"

subsection \<open>The local variables of calculate\_metrics as functions\<close>

text \<open>
  The unrounded values that \<^verbatim>\<open>calculate_metrics\<close> holds in its local variables,
  as functions of the clamped inputs. \<open>calculate_metrics_fields\<close> below shows that
  they are the ones of the definition above. \<open>weighted_sum\<close> is the expression of lines
  32 to 37 with its four numerators as arguments.
\<close>

definition raw_true_satisfaction :: "real \<Rightarrow> real \<Rightarrow> real" where
  "raw_true_satisfaction s m = fmul s (fsub 1 (fdiv m 15))"

definition raw_emotional_vulnerability :: "real \<Rightarrow> real \<Rightarrow> real" where
  "raw_emotional_vulnerability d m = min 10 (fadd (fmul d (fl 0.7)) (fmul m (fl 0.3)))"

definition raw_autonomy :: "real \<Rightarrow> real \<Rightarrow> real" where
  "raw_autonomy d m = max 0 (fsub 10 (fadd (fmul d (fl 0.5)) (fmul m (fl 0.5))))"

definition raw_power_imbalance :: "real \<Rightarrow> real \<Rightarrow> real" where
  "raw_power_imbalance d m = min 10 (fadd (fmul m (fl 0.6)) (fmul d (fl 0.4)))"

definition weighted_sum :: "real \<Rightarrow> real \<Rightarrow> real \<Rightarrow> real \<Rightarrow> real" where
  "weighted_sum a b c e =
     fadd (fadd (fadd (fmul (fdiv a 10) 30) (fmul (fdiv b 10) 25)) (fmul (fdiv c 10) 25))
          (fmul (fdiv e 10) 20)"

definition raw_health_score :: "real \<Rightarrow> real \<Rightarrow> real \<Rightarrow> real" where
  "raw_health_score s d m =
     weighted_sum (raw_true_satisfaction s m) (raw_autonomy d m) (fsub 10 d)
       (fsub 10 (raw_power_imbalance d m))"

section \<open>The model of the clamp\<close>

lemma clamp_is_python: "py_max (Fin 0) (py_min (Fin 10) x) = Fin (clamp x)"
  by (cases x) (auto simp: py_max_def py_min_def)

lemma clamp_range: "0 \<le> clamp x \<and> clamp x \<le> 10"
  by (cases x) auto

lemma clamp_idem: "clamp (Fin (clamp x)) = clamp x"
  by (cases x) (auto simp: max_def min_def)

lemma clamp_mono: "py_lt a b \<Longrightarrow> clamp a \<le> clamp b"
  by (cases a; cases b) auto

section \<open>Rounding to the nearest integer\<close>

lemma round_half_even_floor:
  "\<lfloor>x\<rfloor> \<le> round_half_even x \<and> round_half_even x \<le> \<lfloor>x\<rfloor> + 1"
  by (simp add: round_half_even_def Let_def)

lemma round_half_even_mono:
  assumes "x \<le> y"
  shows "round_half_even x \<le> round_half_even y"
proof (cases "\<lfloor>x\<rfloor> = \<lfloor>y\<rfloor>")
  case True
  with assms show ?thesis
    by (auto simp: round_half_even_def Let_def)
next
  case False
  with floor_mono [OF assms] have "\<lfloor>x\<rfloor> + 1 \<le> \<lfloor>y\<rfloor>"
    by simp
  with round_half_even_floor [of x] round_half_even_floor [of y] show ?thesis
    by linarith
qed

lemma round_half_even_of_int: "round_half_even (of_int k) = k"
  by (simp add: round_half_even_def)

section \<open>Rounding to the nearest double\<close>

lemma bit_length_bounds:
  "0 < n \<Longrightarrow> 2 ^ (bit_length n - 1) \<le> n \<and> n < 2 ^ bit_length n"
proof (induction n rule: bit_length.induct)
  case (1 n)
  show ?case
  proof (cases "n div 2 = 0")
    case True
    with "1.prems" have "n = 1"
      by (simp add: div_eq_0_iff) 
    then show ?thesis
      by (simp add: bit_length.simps)
  next
    case False
    with "1.prems" "1.IH" have ih: "2 ^ (bit_length (n div 2) - 1) \<le> n div 2"
      "n div 2 < 2 ^ bit_length (n div 2)"
      by simp_all
    have pos: "0 < bit_length (n div 2)"
      using False by (simp add: bit_length.simps [of "n div 2"])
    have eq: "bit_length n = Suc (bit_length (n div 2))"
      using "1.prems" by (simp add: bit_length.simps [of n])
    have "(2::nat) ^ bit_length (n div 2) = 2 * 2 ^ (bit_length (n div 2) - 1)"
      using pos by (cases "bit_length (n div 2)") simp_all
    with ih(1) have "2 ^ bit_length (n div 2) \<le> 2 * (n div 2)"
      by simp
    then have lo: "2 ^ (bit_length n - 1) \<le> n"
      unfolding eq by simp
    have "n < 2 * (n div 2) + 2"
      by linarith
    with ih(2) have hi: "n < 2 ^ bit_length n"
      unfolding eq by simp
    from lo hi show ?thesis ..
  qed
qed

lemma exponent_bounds:
  assumes "0 < x"
  shows "2 powi exponent x \<le> x \<and> x < 2 powi (exponent x + 1)"
proof (cases "1 \<le> x")
  case True
  define n where "n = nat \<lfloor>x\<rfloor>"
  have n: "0 < n" "real n \<le> x" "x < real n + 1"
    using True by (simp_all add: n_def)
  from bit_length_bounds [OF n(1)]
  have b: "2 ^ (bit_length n - 1) \<le> n" "n < 2 ^ bit_length n"
    by simp_all
  have pos: "0 < bit_length n"
    using n(1) by (simp add: bit_length.simps [of n])
  have e: "exponent x = int (bit_length n - 1)"
    using True pos by (simp add: exponent_def n_def of_nat_diff)
  have "(2::real) ^ (bit_length n - 1) \<le> real n"
    using b(1) by simp
  also note n(2)
  finally have lo: "2 powi exponent x \<le> x"
    by (simp only: e power_int_of_nat)
  have "n + 1 \<le> 2 ^ bit_length n"
    using b(2) by simp
  then have "real (n + 1) \<le> real (2 ^ bit_length n)"
    by (rule of_nat_mono)
  then have "real n + 1 \<le> 2 ^ bit_length n"
    by simp
  with n(3) have "x < 2 ^ bit_length n"
    by linarith
  moreover have "exponent x + 1 = int (bit_length n)"
    using pos by (simp add: e)
  ultimately have hi: "x < 2 powi (exponent x + 1)"
    by (simp only: power_int_of_nat)
  from lo hi show ?thesis ..
next
  case False
  define y where "y = 1 / x"
  define n where "n = nat (\<lceil>y\<rceil> - 1)"
  have y: "1 < y" "1 / y = x"
    using False assms by (simp_all add: y_def)
  have n: "0 < n" "real n < y" "y \<le> real n + 1"
    using y(1) by (simp_all add: n_def) linarith+
  from bit_length_bounds [OF n(1)]
  have b: "2 ^ (bit_length n - 1) \<le> n" "n < 2 ^ bit_length n"
    by simp_all
  have pos: "0 < bit_length n"
    using n(1) by (simp add: bit_length.simps [of n])
  have e: "exponent x = - int (bit_length n)"
    using False by (simp add: exponent_def n_def y_def)
  have "n + 1 \<le> 2 ^ bit_length n"
    using b(2) by simp
  then have "real (n + 1) \<le> real (2 ^ bit_length n)"
    by (rule of_nat_mono)
  then have "real n + 1 \<le> 2 ^ bit_length n"
    by simp
  with n(3) have "y \<le> 2 ^ bit_length n"
    by linarith
  then have "1 / 2 ^ bit_length n \<le> 1 / y"
    using y(1) by (intro divide_left_mono) simp_all
  then have "1 / 2 ^ bit_length n \<le> x"
    by (simp only: y(2))
  moreover have "(2::real) powi exponent x = 1 / 2 ^ bit_length n"
    by (simp only: e power_int_minus_divide power_int_of_nat)
  ultimately have lo: "2 powi exponent x \<le> x"
    by simp
  have "(2::real) ^ (bit_length n - 1) \<le> real n"
    using b(1) by simp
  with n(2) have "2 ^ (bit_length n - 1) < y"
    by linarith
  then have "1 / y < 1 / 2 ^ (bit_length n - 1)"
    by (intro divide_strict_left_mono mult_pos_pos) (use y(1) in simp_all)
  then have "x < 1 / 2 ^ (bit_length n - 1)"
    by (simp only: y(2))
  moreover have "exponent x + 1 = - int (bit_length n - 1)"
    using pos by (simp add: e of_nat_diff)
  then have "(2::real) powi (exponent x + 1) = 1 / 2 ^ (bit_length n - 1)"
    by (simp only: power_int_minus_divide power_int_of_nat)
  ultimately have hi: "x < 2 powi (exponent x + 1)"
    by simp
  from lo hi show ?thesis ..
qed

lemma exponent_mono:
  assumes "0 < x" "x \<le> y"
  shows "exponent x \<le> exponent y"
proof (rule ccontr)
  assume "\<not> exponent x \<le> exponent y"
  then have "exponent y + 1 \<le> exponent x"
    by simp
  then have "(2::real) powi (exponent y + 1) \<le> 2 powi exponent x"
    by (intro power_int_increasing) simp_all
  also have "\<dots> \<le> x"
    using exponent_bounds [OF assms(1)] by simp
  also have "\<dots> \<le> y"
    by (rule assms(2))
  also have "\<dots> < 2 powi (exponent y + 1)"
    using exponent_bounds [of y] assms by simp
  finally show False
    by simp
qed

lemma ulp_pos: "0 < ulp x"
  by (simp add: ulp_def)

lemma fl_nonneg:
  assumes "0 \<le> x"
  shows "0 \<le> fl x"
proof (cases "x = 0")
  case True
  then show ?thesis by (simp add: fl_def)
next
  case False
  have "0 \<le> x / ulp x"
    using assms ulp_pos [of x] by simp
  from round_half_even_mono [OF this] have "0 \<le> round_half_even (x / ulp x)"
    using round_half_even_of_int [of 0] by simp
  then show ?thesis
    using False ulp_pos [of x] by (simp add: fl_def)
qed

lemma pow2_split_53: "(2::real) powi (e + 1) = 2 powi 53 * 2 powi (e - 52)"
proof -
  have "(2::real) powi (53 + (e - 52)) = 2 powi 53 * 2 powi (e - 52)"
    by (rule power_int_add) simp
  moreover have "53 + (e - 52) = e + 1"
    by simp
  ultimately show ?thesis
    by (simp only:)
qed

lemma pow2_split_52: "(2::real) powi e = 2 powi 52 * 2 powi (e - 52)"
proof -
  have "(2::real) powi (52 + (e - 52)) = 2 powi 52 * 2 powi (e - 52)"
    by (rule power_int_add) simp
  moreover have "52 + (e - 52) = e"
    by simp
  ultimately show ?thesis
    by (simp only:)
qed

lemma fl_below_next_binade:
  assumes "0 < x"
  shows "fl x \<le> 2 powi (max (exponent x) (- 1022) + 1)"
proof -
  let ?e = "max (exponent x) (- 1022)"
  have u: "ulp x = 2 powi (?e - 52)"
    using assms by (simp add: ulp_def)
  have "x < 2 powi (exponent x + 1)"
    using exponent_bounds [OF assms] by simp
  also have "\<dots> \<le> 2 powi (?e + 1)"
    by (intro power_int_increasing) simp_all
  also have "\<dots> = 2 powi 53 * 2 powi (?e - 52)"
    by (rule pow2_split_53)
  finally have "x / ulp x \<le> 2 powi 53"
    using ulp_pos [of x] by (simp add: u pos_divide_le_eq)
  also have "\<dots> = of_int (2 ^ 53)"
    by simp
  finally have "round_half_even (x / ulp x) \<le> 2 ^ 53"
    using round_half_even_mono [of "x / ulp x" "of_int (2 ^ 53)"]
    by (simp only: round_half_even_of_int)
  then have "real_of_int (round_half_even (x / ulp x)) \<le> 2 powi 53"
    by (metis of_int_le_iff of_int_numeral of_int_power power_int_numeral)
  then have "fl x \<le> 2 powi 53 * 2 powi (?e - 52)"
    using assms ulp_pos [of x] by (simp add: fl_def u mult_right_mono)
  also have "\<dots> = 2 powi (?e + 1)"
    by (rule pow2_split_53 [symmetric])
  finally show ?thesis .
qed

lemma fl_above_binade:
  assumes "0 < x" "- 1022 \<le> exponent x"
  shows "2 powi exponent x \<le> fl x"
proof -
  let ?e = "exponent x"
  have u: "ulp x = 2 powi (?e - 52)"
    using assms by (simp add: ulp_def max_def)
  have "(2::real) powi 52 * 2 powi (?e - 52) = 2 powi ?e"
    by (rule pow2_split_52 [symmetric])
  also have "\<dots> \<le> x"
    using exponent_bounds [OF assms(1)] by simp
  finally have "of_int (2 ^ 52) \<le> x / ulp x"
    using ulp_pos [of x] by (simp add: u pos_le_divide_eq)
  from round_half_even_mono [OF this] have "2 ^ 52 \<le> round_half_even (x / ulp x)"
    by (simp only: round_half_even_of_int)
  then have "2 powi 52 \<le> real_of_int (round_half_even (x / ulp x))"
    by (metis of_int_le_iff of_int_numeral of_int_power power_int_numeral)
  then have "2 powi 52 * 2 powi (?e - 52) \<le> fl x"
    using assms ulp_pos [of x] by (simp add: fl_def u mult_right_mono)
  then show ?thesis
    by (simp only: pow2_split_52 [symmetric])
qed

lemma fl_mono:
  assumes "0 \<le> x" "x \<le> y"
  shows "fl x \<le> fl y"
proof (cases "x = 0")
  case True
  with assms fl_nonneg [of y] show ?thesis
    by (simp add: fl_def)
next
  case False
  with assms have pos: "0 < x" "0 < y"
    by simp_all
  let ?ex = "max (exponent x) (- 1022)" and ?ey = "max (exponent y) (- 1022)"
  have le: "?ex \<le> ?ey"
    using exponent_mono [OF pos(1) assms(2)] by simp
  show ?thesis
  proof (cases "?ex = ?ey")
    case True
    then have u: "ulp x = ulp y"
      using pos by (simp add: ulp_def)
    have "x / ulp y \<le> y / ulp y"
      using assms(2) ulp_pos [of y] by (simp add: divide_right_mono)
    from round_half_even_mono [OF this]
    have "real_of_int (round_half_even (x / ulp y)) * ulp y
          \<le> real_of_int (round_half_even (y / ulp y)) * ulp y"
      using ulp_pos [of y] by (simp add: mult_right_mono)
    then show ?thesis
      using pos by (simp add: fl_def u)
  next
    case False
    with le have lt: "?ex + 1 \<le> ?ey" and ey: "?ey = exponent y" "- 1022 \<le> exponent y"
      by (simp_all add: max_def split: if_splits)
    have "fl x \<le> 2 powi (?ex + 1)"
      by (rule fl_below_next_binade [OF pos(1)])
    also have "\<dots> \<le> 2 powi ?ey"
      using lt by (intro power_int_increasing) simp_all
    also have "\<dots> = 2 powi exponent y"
      by (simp only: ey(1))
    also have "\<dots> \<le> fl y"
      by (rule fl_above_binade [OF pos(2) ey(2)])
    finally show ?thesis .
  qed
qed

lemma fl_numerals:
  "fl 1 = 1" "fl 5 = 5" "fl 10 = 10" "fl 20 = 20" "fl 25 = 25" "fl 30 = 30"
  "fl 55 = 55" "fl 80 = 80" "fl 100 = 100" "fl (1 / 2) = 1 / 2"
  by code_simp+

lemma fl_0: "fl 0 = 0"
  by (simp add: fl_def)

lemma fl_le:
  assumes "0 \<le> x" "x \<le> k" "fl k = k"
  shows "fl x \<le> k"
  using fl_mono [OF assms(1,2)] by (simp only: assms(3))

section \<open>The operators on floats\<close>

lemma fadd_nonneg: "0 \<le> a \<Longrightarrow> 0 \<le> b \<Longrightarrow> 0 \<le> fadd a b"
  by (simp add: fadd_def fl_nonneg)

lemma fmul_nonneg: "0 \<le> a \<Longrightarrow> 0 \<le> b \<Longrightarrow> 0 \<le> fmul a b"
  by (simp add: fmul_def fl_nonneg)

lemma fdiv_nonneg: "0 \<le> a \<Longrightarrow> 0 \<le> b \<Longrightarrow> 0 \<le> fdiv a b"
  by (simp add: fdiv_def fl_nonneg)

lemma fsub_nonneg: "b \<le> a \<Longrightarrow> 0 \<le> fsub a b"
  by (simp add: fsub_def fl_nonneg)

lemma fadd_mono:
  "0 \<le> a \<Longrightarrow> 0 \<le> c \<Longrightarrow> a \<le> b \<Longrightarrow> c \<le> d \<Longrightarrow> fadd a c \<le> fadd b d"
  unfolding fadd_def by (rule fl_mono) simp_all

lemma fmul_mono:
  "0 \<le> a \<Longrightarrow> 0 \<le> c \<Longrightarrow> a \<le> b \<Longrightarrow> c \<le> d \<Longrightarrow> fmul a c \<le> fmul b d"
  unfolding fmul_def by (rule fl_mono) (simp_all add: mult_mono)

lemma fdiv_mono: "0 \<le> a \<Longrightarrow> a \<le> b \<Longrightarrow> 0 < c \<Longrightarrow> fdiv a c \<le> fdiv b c"
  unfolding fdiv_def by (rule fl_mono) (simp_all add: divide_right_mono)

lemma fsub_antimono: "b \<le> b' \<Longrightarrow> b' \<le> a \<Longrightarrow> fsub a b' \<le> fsub a b"
  unfolding fsub_def by (rule fl_mono) simp_all

lemma fadd_le:
  "0 \<le> a \<Longrightarrow> 0 \<le> b \<Longrightarrow> a \<le> j \<Longrightarrow> b \<le> k \<Longrightarrow> fl (j + k) = j + k \<Longrightarrow> fadd a b \<le> j + k"
  unfolding fadd_def by (rule fl_le) simp_all

lemma fmul_le:
  "0 \<le> a \<Longrightarrow> 0 \<le> b \<Longrightarrow> a \<le> j \<Longrightarrow> b \<le> k \<Longrightarrow> fl (j * k) = j * k \<Longrightarrow> fmul a b \<le> j * k"
  unfolding fmul_def by (rule fl_le) (simp_all add: mult_mono)

lemma fdiv_10_le_1: "0 \<le> a \<Longrightarrow> a \<le> 10 \<Longrightarrow> fdiv a 10 \<le> 1"
  unfolding fdiv_def by (rule fl_le) (simp_all add: fl_numerals)

lemma fsub_le: "0 \<le> b \<Longrightarrow> b \<le> k \<Longrightarrow> fl k = k \<Longrightarrow> fsub k b \<le> k"
  unfolding fsub_def by (rule fl_le) simp_all

section \<open>The built-in round\<close>

lemma round_half_even_nonneg: "0 \<le> x \<Longrightarrow> 0 \<le> round_half_even x"
  using round_half_even_mono [of 0 x] round_half_even_of_int [of 0] by simp

lemma py_round_nonneg: "0 \<le> x \<Longrightarrow> 0 \<le> py_round x n"
  unfolding py_round_def by (intro fl_nonneg divide_nonneg_nonneg) (simp_all add: round_half_even_nonneg)

lemma py_round_mono:
  assumes "0 \<le> x" "x \<le> y"
  shows "py_round x n \<le> py_round y n"
  unfolding py_round_def
proof (rule fl_mono)
  show "0 \<le> real_of_int (round_half_even (x * 10 ^ n)) / 10 ^ n"
    using assms(1) by (simp add: round_half_even_nonneg)
  have "x * 10 ^ n \<le> y * 10 ^ n"
    using assms(2) by (simp add: mult_right_mono)
  then have "round_half_even (x * 10 ^ n) \<le> round_half_even (y * 10 ^ n)"
    by (rule round_half_even_mono)
  then show "real_of_int (round_half_even (x * 10 ^ n)) / 10 ^ n
             \<le> real_of_int (round_half_even (y * 10 ^ n)) / 10 ^ n"
    by (simp add: divide_right_mono)
qed

lemma py_round_of_int: "py_round (of_int k) n = fl (of_int k)"
proof -
  have "of_int k * (10::real) ^ n = of_int (k * 10 ^ n)"
    by simp
  then have "round_half_even (of_int k * 10 ^ n) = k * 10 ^ n"
    by (simp only: round_half_even_of_int)
  then show ?thesis
    by (simp add: py_round_def)
qed

lemma py_round_le:
  assumes "0 \<le> x" "x \<le> of_int k" "fl (of_int k) = of_int k"
  shows "py_round x n \<le> of_int k"
  using py_round_mono [OF assms(1,2), of n] by (simp only: py_round_of_int assms(3))

section \<open>The fields of the record returned\<close>

lemma calculate_metrics_fields:
  "calculate_metrics self s d m =
     \<lparr> timestamp = int (length (history self)) + 1,
       satisfaction = clamp s,
       true_satisfaction = py_round (raw_true_satisfaction (clamp s) (clamp m)) 2,
       dependency = clamp d,
       manipulation = clamp m,
       emotional_vulnerability = py_round (raw_emotional_vulnerability (clamp d) (clamp m)) 2,
       autonomy = py_round (raw_autonomy (clamp d) (clamp m)) 2,
       power_imbalance = py_round (raw_power_imbalance (clamp d) (clamp m)) 2,
       health_score = py_round (raw_health_score (clamp s) (clamp d) (clamp m)) 1,
       loyalty_state =
         determine_state (loyalty_states self) (raw_health_score (clamp s) (clamp d) (clamp m)) ''Toxic'',
       risk_factors =
         (if 6 < clamp m then [''High Manipulation''] else [])
         @ (if 7 < clamp d then [''High Dependency''] else [])
         @ (if raw_true_satisfaction (clamp s) (clamp m) < 4 then [''Low Satisfaction''] else [])
         @ (if raw_autonomy (clamp d) (clamp m) < 3 then [''Low Autonomy''] else []) \<rparr>"
  by (simp add: calculate_metrics_def Let_def raw_true_satisfaction_def
      raw_emotional_vulnerability_def raw_autonomy_def raw_power_imbalance_def
      raw_health_score_def weighted_sum_def)

lemma health_score_calculate_metrics:
  "health_score (calculate_metrics self s d m) =
     py_round (raw_health_score (clamp s) (clamp d) (clamp m)) 1"
  by (simp add: calculate_metrics_fields)

section \<open>Ranges of the unrounded values\<close>

lemma fdiv_15_range:
  assumes "0 \<le> m" "m \<le> 10"
  shows "0 \<le> fdiv m 15 \<and> fdiv m 15 \<le> 1"
proof
  show "0 \<le> fdiv m 15"
    using assms by (simp add: fdiv_nonneg)
  show "fdiv m 15 \<le> 1"
    unfolding fdiv_def using assms by (intro fl_le) (simp_all add: fl_numerals)
qed

lemma discount_range:
  assumes "0 \<le> m" "m \<le> 10"
  shows "0 \<le> fsub 1 (fdiv m 15) \<and> fsub 1 (fdiv m 15) \<le> 1"
  using fdiv_15_range [OF assms] by (simp add: fsub_nonneg fsub_le fl_numerals)

lemma raw_true_satisfaction_range:
  assumes "0 \<le> s" "s \<le> 10" "0 \<le> m" "m \<le> 10"
  shows "0 \<le> raw_true_satisfaction s m \<and> raw_true_satisfaction s m \<le> 10"
proof
  note c = discount_range [OF assms(3,4)]
  show "0 \<le> raw_true_satisfaction s m"
    unfolding raw_true_satisfaction_def using assms c by (intro fmul_nonneg) simp_all
  have "fmul s (fsub 1 (fdiv m 15)) \<le> 10 * 1"
    using assms c by (intro fmul_le) (simp_all add: fl_numerals)
  then show "raw_true_satisfaction s m \<le> 10"
    by (simp add: raw_true_satisfaction_def)
qed

lemma raw_emotional_vulnerability_range:
  "0 \<le> d \<Longrightarrow> 0 \<le> m \<Longrightarrow>
   0 \<le> raw_emotional_vulnerability d m \<and> raw_emotional_vulnerability d m \<le> 10"
  by (simp add: raw_emotional_vulnerability_def fadd_nonneg fmul_nonneg fl_nonneg)

lemma raw_power_imbalance_range:
  "0 \<le> d \<Longrightarrow> 0 \<le> m \<Longrightarrow> 0 \<le> raw_power_imbalance d m \<and> raw_power_imbalance d m \<le> 10"
  by (simp add: raw_power_imbalance_def fadd_nonneg fmul_nonneg fl_nonneg)

lemma half_sum_range:
  assumes "0 \<le> d" "d \<le> 10" "0 \<le> m" "m \<le> 10"
  shows "0 \<le> fadd (fmul d (fl 0.5)) (fmul m (fl 0.5))
         \<and> fadd (fmul d (fl 0.5)) (fmul m (fl 0.5)) \<le> 10"
proof
  show "0 \<le> fadd (fmul d (fl 0.5)) (fmul m (fl 0.5))"
    using assms by (simp add: fadd_nonneg fmul_nonneg fl_numerals)
  have "fmul d (1 / 2) \<le> 10 * (1 / 2)" "fmul m (1 / 2) \<le> 10 * (1 / 2)"
    using assms by (intro fmul_le; simp add: fl_numerals)+
  then have "fadd (fmul d (1 / 2)) (fmul m (1 / 2)) \<le> 5 + 5"
    using assms by (intro fadd_le) (simp_all add: fmul_nonneg fl_numerals)
  then show "fadd (fmul d (fl 0.5)) (fmul m (fl 0.5)) \<le> 10"
    by (simp add: fl_numerals)
qed

lemma raw_autonomy_range:
  assumes "0 \<le> d" "d \<le> 10" "0 \<le> m" "m \<le> 10"
  shows "0 \<le> raw_autonomy d m \<and> raw_autonomy d m \<le> 10"
proof
  show "0 \<le> raw_autonomy d m"
    by (simp add: raw_autonomy_def)
  have "fsub 10 (fadd (fmul d (fl 0.5)) (fmul m (fl 0.5))) \<le> 10"
    using half_sum_range [OF assms] by (intro fsub_le) (simp_all add: fl_numerals)
  then show "raw_autonomy d m \<le> 10"
    by (simp add: raw_autonomy_def)
qed

lemma weighted_term_range:
  assumes "0 \<le> a" "a \<le> 10" "0 \<le> w" "fl w = w"
  shows "0 \<le> fmul (fdiv a 10) w \<and> fmul (fdiv a 10) w \<le> w"
proof
  show "0 \<le> fmul (fdiv a 10) w"
    using assms by (simp add: fmul_nonneg fdiv_nonneg)
  have "fmul (fdiv a 10) w \<le> 1 * w"
    using assms by (intro fmul_le) (simp_all add: fdiv_nonneg fdiv_10_le_1)
  then show "fmul (fdiv a 10) w \<le> w"
    by simp
qed

lemma weighted_sum_range:
  assumes "0 \<le> a" "a \<le> 10" "0 \<le> b" "b \<le> 10" "0 \<le> c" "c \<le> 10" "0 \<le> e" "e \<le> 10"
  shows "0 \<le> weighted_sum a b c e \<and> weighted_sum a b c e \<le> 100"
proof -
  let ?t1 = "fmul (fdiv a 10) 30" and ?t2 = "fmul (fdiv b 10) 25"
  let ?t3 = "fmul (fdiv c 10) 25" and ?t4 = "fmul (fdiv e 10) 20"
  have t1: "0 \<le> ?t1" "?t1 \<le> 30"
    using weighted_term_range [OF assms(1,2), of 30] by (simp_all add: fl_numerals)
  have t2: "0 \<le> ?t2" "?t2 \<le> 25"
    using weighted_term_range [OF assms(3,4), of 25] by (simp_all add: fl_numerals)
  have t3: "0 \<le> ?t3" "?t3 \<le> 25"
    using weighted_term_range [OF assms(5,6), of 25] by (simp_all add: fl_numerals)
  have t4: "0 \<le> ?t4" "?t4 \<le> 20"
    using weighted_term_range [OF assms(7,8), of 20] by (simp_all add: fl_numerals)
  have s12: "0 \<le> fadd ?t1 ?t2" "fadd ?t1 ?t2 \<le> 30 + 25"
    using t1 t2 by (simp add: fadd_nonneg, intro fadd_le) (simp_all add: fl_numerals)
  have s123: "0 \<le> fadd (fadd ?t1 ?t2) ?t3" "fadd (fadd ?t1 ?t2) ?t3 \<le> 55 + 25"
    using s12 t3 by (simp add: fadd_nonneg, intro fadd_le) (simp_all add: fl_numerals)
  have s: "0 \<le> fadd (fadd (fadd ?t1 ?t2) ?t3) ?t4" "fadd (fadd (fadd ?t1 ?t2) ?t3) ?t4 \<le> 80 + 20"
    using s123 t4 by (simp add: fadd_nonneg, intro fadd_le) (simp_all add: fl_numerals)
  from s show ?thesis
    by (simp add: weighted_sum_def)
qed

lemma complement_range:
  assumes "0 \<le> x" "x \<le> 10"
  shows "0 \<le> fsub 10 x \<and> fsub 10 x \<le> 10"
  using assms by (simp add: fsub_nonneg fsub_le fl_numerals)

lemma raw_health_score_range:
  assumes "0 \<le> s" "s \<le> 10" "0 \<le> d" "d \<le> 10" "0 \<le> m" "m \<le> 10"
  shows "0 \<le> raw_health_score s d m \<and> raw_health_score s d m \<le> 100"
proof -
  have ts: "0 \<le> raw_true_satisfaction s m" "raw_true_satisfaction s m \<le> 10"
    using raw_true_satisfaction_range [OF assms(1,2,5,6)] by simp_all
  have au: "0 \<le> raw_autonomy d m" "raw_autonomy d m \<le> 10"
    using raw_autonomy_range [OF assms(3,4,5,6)] by simp_all
  have nd: "0 \<le> fsub 10 d" "fsub 10 d \<le> 10"
    using complement_range [OF assms(3,4)] by simp_all
  have pi: "0 \<le> raw_power_imbalance d m" "raw_power_imbalance d m \<le> 10"
    using raw_power_imbalance_range [OF assms(3,5)] by simp_all
  have npi: "0 \<le> fsub 10 (raw_power_imbalance d m)" "fsub 10 (raw_power_imbalance d m) \<le> 10"
    using complement_range [OF pi] by simp_all
  show ?thesis
    unfolding raw_health_score_def by (rule weighted_sum_range [OF ts au nd npi])
qed

section \<open>Monotonicity of the unrounded health score\<close>

lemma weighted_sum_mono:
  assumes "0 \<le> a" "a \<le> a'" "0 \<le> b" "b \<le> b'" "0 \<le> c" "c \<le> c'" "0 \<le> e" "e \<le> e'"
  shows "weighted_sum a b c e \<le> weighted_sum a' b' c' e'"
  unfolding weighted_sum_def using assms
  by (intro fadd_mono fmul_mono fdiv_mono fadd_nonneg fmul_nonneg fdiv_nonneg) simp_all

lemma raw_true_satisfaction_mono_s:
  assumes "0 \<le> s" "s \<le> s'" "0 \<le> m" "m \<le> 10"
  shows "raw_true_satisfaction s m \<le> raw_true_satisfaction s' m"
  unfolding raw_true_satisfaction_def using assms discount_range [OF assms(3,4)]
  by (intro fmul_mono) simp_all

lemma raw_true_satisfaction_antimono_m:
  assumes "0 \<le> s" "0 \<le> m" "m \<le> m'" "m' \<le> 10"
  shows "raw_true_satisfaction s m' \<le> raw_true_satisfaction s m"
proof -
  have "fdiv m 15 \<le> fdiv m' 15"
    using assms by (intro fdiv_mono) simp_all
  moreover have "fdiv m' 15 \<le> 1"
    using fdiv_15_range [of m'] assms by simp
  ultimately have "fsub 1 (fdiv m' 15) \<le> fsub 1 (fdiv m 15)"
    by (rule fsub_antimono)
  moreover have "0 \<le> fsub 1 (fdiv m' 15)"
    using discount_range [of m'] assms by simp
  ultimately show ?thesis
    unfolding raw_true_satisfaction_def using assms(1) by (intro fmul_mono) simp_all
qed

lemma raw_autonomy_antimono:
  assumes "0 \<le> d" "d \<le> d'" "d' \<le> 10" "0 \<le> m" "m \<le> m'" "m' \<le> 10"
  shows "raw_autonomy d' m' \<le> raw_autonomy d m"
proof -
  have "fadd (fmul d (fl 0.5)) (fmul m (fl 0.5)) \<le> fadd (fmul d' (fl 0.5)) (fmul m' (fl 0.5))"
    using assms by (intro fadd_mono fmul_mono fmul_nonneg fl_nonneg) simp_all
  moreover have "fadd (fmul d' (fl 0.5)) (fmul m' (fl 0.5)) \<le> 10"
    using half_sum_range [of d' m'] assms by simp
  ultimately have "fsub 10 (fadd (fmul d' (fl 0.5)) (fmul m' (fl 0.5)))
                   \<le> fsub 10 (fadd (fmul d (fl 0.5)) (fmul m (fl 0.5)))"
    by (rule fsub_antimono)
  then show ?thesis
    by (simp add: raw_autonomy_def max_def)
qed

lemma raw_power_imbalance_mono:
  assumes "0 \<le> d" "d \<le> d'" "0 \<le> m" "m \<le> m'"
  shows "raw_power_imbalance d m \<le> raw_power_imbalance d' m'"
proof -
  have "fadd (fmul m (fl 0.6)) (fmul d (fl 0.4)) \<le> fadd (fmul m' (fl 0.6)) (fmul d' (fl 0.4))"
    using assms by (intro fadd_mono fmul_mono fmul_nonneg fl_nonneg) simp_all
  then show ?thesis
    by (simp add: raw_power_imbalance_def min_def)
qed

lemma complement_antimono: "x \<le> x' \<Longrightarrow> x' \<le> 10 \<Longrightarrow> fsub 10 x' \<le> fsub 10 x"
  by (rule fsub_antimono)

lemma raw_health_score_mono_s:
  assumes "0 \<le> s" "s \<le> s'" "0 \<le> d" "d \<le> 10" "0 \<le> m" "m \<le> 10"
  shows "raw_health_score s d m \<le> raw_health_score s' d m"
  unfolding raw_health_score_def
proof (rule weighted_sum_mono)
  show "0 \<le> raw_true_satisfaction s m"
    unfolding raw_true_satisfaction_def using assms discount_range [of m]
    by (intro fmul_nonneg) simp_all
  show "raw_true_satisfaction s m \<le> raw_true_satisfaction s' m"
    using assms by (intro raw_true_satisfaction_mono_s) simp_all
  show "0 \<le> raw_autonomy d m"
    by (simp add: raw_autonomy_def)
  show "0 \<le> fsub 10 d"
    using assms by (simp add: fsub_nonneg)
  show "0 \<le> fsub 10 (raw_power_imbalance d m)"
    by (simp add: fsub_nonneg raw_power_imbalance_def)
qed simp_all

lemma raw_health_score_antimono:
  assumes "0 \<le> s" "0 \<le> d" "d \<le> d'" "d' \<le> 10" "0 \<le> m" "m \<le> m'" "m' \<le> 10"
  shows "raw_health_score s d' m' \<le> raw_health_score s d m"
  unfolding raw_health_score_def
proof (rule weighted_sum_mono)
  show "0 \<le> raw_true_satisfaction s m'"
    unfolding raw_true_satisfaction_def using assms discount_range [of m']
    by (intro fmul_nonneg) simp_all
  show "raw_true_satisfaction s m' \<le> raw_true_satisfaction s m"
    using assms by (intro raw_true_satisfaction_antimono_m) simp_all
  show "0 \<le> raw_autonomy d' m'"
    by (simp add: raw_autonomy_def)
  show "raw_autonomy d' m' \<le> raw_autonomy d m"
    using assms by (intro raw_autonomy_antimono) simp_all
  show "0 \<le> fsub 10 d'"
    using assms by (simp add: fsub_nonneg)
  show "fsub 10 d' \<le> fsub 10 d"
    using assms by (intro complement_antimono) simp_all
  show "0 \<le> fsub 10 (raw_power_imbalance d' m')"
    by (simp add: fsub_nonneg raw_power_imbalance_def)
  show "fsub 10 (raw_power_imbalance d' m') \<le> fsub 10 (raw_power_imbalance d m)"
    using assms by (intro complement_antimono raw_power_imbalance_mono)
      (simp_all add: raw_power_imbalance_def)
qed

section \<open>The loop over the loyalty states\<close>

lemma determine_state_find:
  "determine_state tbl hs dflt =
     (case find (\<lambda>e. of_int (threshold (snd e)) \<le> hs) tbl of
        None \<Rightarrow> dflt | Some e \<Rightarrow> fst e)"
  by (induction tbl) auto

lemma determine_state_init:
  "determine_state (loyalty_states (init nm)) hs dflt =
     (if 75 \<le> hs then ''Healthy''
      else if 60 \<le> hs then ''Stable''
      else if 50 \<le> hs then ''At Risk''
      else if 40 \<le> hs then ''Unstable''
      else if 0 \<le> hs then ''Toxic'' else dflt)"
  by (simp add: init_def)

lemma first_match_unique:
  assumes "\<exists>e\<in>set xs. P e"
  shows "\<exists>!i. i < length xs \<and> P (xs ! i) \<and> (\<forall>j<i. \<not> P (xs ! j)) \<and>
              find P xs = Some (xs ! i)"
proof -
  from assms obtain e where "find P xs = Some e"
    by (cases "find P xs") (auto simp: find_None_iff)
  then obtain i where i: "i < length xs" "P (xs ! i)" "e = xs ! i" "\<forall>j<i. \<not> P (xs ! j)"
    unfolding find_Some_iff by blast
  show ?thesis
  proof (rule ex1I [of _ i])
    show "i < length xs \<and> P (xs ! i) \<and> (\<forall>j<i. \<not> P (xs ! j)) \<and> find P xs = Some (xs ! i)"
      using i \<open>find P xs = Some e\<close> by simp
  next
    fix k
    assume k: "k < length xs \<and> P (xs ! k) \<and> (\<forall>j<k. \<not> P (xs ! j)) \<and> find P xs = Some (xs ! k)"
    show "k = i"
    proof (rule ccontr)
      assume "k \<noteq> i"
      then consider "k < i" | "i < k" by linarith
      then show False
        using i k by cases auto
    qed
  qed
qed

lemma init_floor_matches:
  "0 \<le> hs \<Longrightarrow> \<exists>e\<in>set (loyalty_states (init nm)). of_int (threshold (snd e)) \<le> hs"
  by (simp add: init_def)

section \<open>The history\<close>

lemma add_measurement_snd:
  "snd (add_measurement self s d m) =
     self\<lparr> history := history self @ [calculate_metrics self s d m] \<rparr>"
  by (simp add: add_measurement_def Let_def)

lemma add_all_name: "name (add_all self xs) = name self"
  by (induction self xs rule: add_all.induct) (simp_all add: add_measurement_snd)

lemma add_all_loyalty_states: "loyalty_states (add_all self xs) = loyalty_states self"
  by (induction self xs rule: add_all.induct) (simp_all add: add_measurement_snd)

lemma add_all_length: "length (history (add_all self xs)) = length (history self) + length xs"
  by (induction self xs rule: add_all.induct) (simp_all add: add_measurement_snd)

lemma add_all_prefix: "take (length (history self)) (history (add_all self xs)) = history self"
proof (induction self xs rule: add_all.induct)
  case (1 self)
  show ?case by simp
next
  case (2 self s d m rest)
  let ?self' = "snd (add_measurement self s d m)"
  have "take (length (history self)) (history (add_all ?self' rest)) =
        take (length (history self)) (take (length (history ?self')) (history (add_all ?self' rest)))"
    by (simp add: add_measurement_snd min_def)
  also have "\<dots> = take (length (history self)) (history ?self')"
    by (simp only: "2.IH")
  also have "\<dots> = history self"
    by (simp add: add_measurement_snd)
  finally show ?case by simp
qed

lemma add_all_timestamps:
  "map timestamp (history self) = map (\<lambda>i. int i + 1) [0..<length (history self)] \<Longrightarrow>
   map timestamp (history (add_all self xs)) =
     map (\<lambda>i. int i + 1) [0..<length (history self) + length xs]"
proof (induction self xs rule: add_all.induct)
  case (1 self)
  then show ?case by simp
next
  case (2 self s d m rest)
  let ?self' = "snd (add_measurement self s d m)"
  have "map timestamp (history ?self') = map (\<lambda>i. int i + 1) [0..<length (history ?self')]"
    using "2.prems" by (simp add: add_measurement_snd calculate_metrics_fields)
  from "2.IH" [OF this] show ?case
    by (simp add: add_measurement_snd)
qed

section \<open>Three calls evaluated\<close>

lemma fl_70: "fl 70 = 70"
  by code_simp

lemma raw_values_0_0:
  "raw_true_satisfaction 0 0 = 0" "raw_emotional_vulnerability 0 0 = 0"
  "raw_autonomy 0 0 = 10" "raw_power_imbalance 0 0 = 0"
  by code_simp+

lemma raw_health_score_0_0_0: "raw_health_score 0 0 0 = 70"
  by code_simp

lemma raw_true_satisfaction_10_0: "raw_true_satisfaction 10 0 = 10"
  by code_simp

lemma raw_health_score_10_0_0: "raw_health_score 10 0 0 = 100"
  by code_simp

lemma py_round_numerals:
  "py_round 0 n = 0" "py_round 10 n = 10" "py_round 70 n = 70" "py_round 100 n = 100"
  using py_round_of_int [of 0 n] py_round_of_int [of 10 n] py_round_of_int [of 70 n]
    py_round_of_int [of 100 n]
  by (simp_all add: fl_0 fl_numerals fl_70)

lemma calculate_metrics_0_0_0:
  "calculate_metrics self (Fin 0) (Fin 0) (Fin 0) =
     \<lparr> timestamp = int (length (history self)) + 1, satisfaction = 0, true_satisfaction = 0,
       dependency = 0, manipulation = 0, emotional_vulnerability = 0, autonomy = 10,
       power_imbalance = 0, health_score = 70,
       loyalty_state = determine_state (loyalty_states self) 70 ''Toxic'',
       risk_factors = [''Low Satisfaction''] \<rparr>"
  by (simp add: calculate_metrics_fields raw_values_0_0 raw_health_score_0_0_0
      py_round_numerals)

lemma raw_values_2_8_7:
  "raw_true_satisfaction 2 7 < 4" "raw_autonomy 8 7 < 3"
  by code_simp+

lemma raw_health_score_2_8_7:
  "raw_health_score 2 8 7 = 2765491646182195 / 140737488355328"
  by code_simp

lemma py_round_health_score_2_8_7:
  "py_round (2765491646182195 / 140737488355328) (Suc 0) = 2758454771764429 / 140737488355328"
  by code_simp

lemma calculate_metrics_2_8_7:
  "satisfaction (calculate_metrics self (Fin 2) (Fin 8) (Fin 7)) = 2"
  "dependency (calculate_metrics self (Fin 2) (Fin 8) (Fin 7)) = 8"
  "manipulation (calculate_metrics self (Fin 2) (Fin 8) (Fin 7)) = 7"
  "health_score (calculate_metrics self (Fin 2) (Fin 8) (Fin 7)) =
     2758454771764429 / 140737488355328"
  "loyalty_state (calculate_metrics self (Fin 2) (Fin 8) (Fin 7)) =
     determine_state (loyalty_states self) (2765491646182195 / 140737488355328) ''Toxic''"
  "risk_factors (calculate_metrics self (Fin 2) (Fin 8) (Fin 7)) =
     [''High Manipulation'', ''High Dependency'', ''Low Satisfaction'', ''Low Autonomy'']"
  by (simp_all add: calculate_metrics_fields raw_values_2_8_7 raw_health_score_2_8_7
      py_round_health_score_2_8_7)

lemma raw_health_score_8_725_025:
  "50 \<le> raw_health_score 8 (29 / 4) (1 / 4) \<and> raw_health_score 8 (29 / 4) (1 / 4) < 60"
  by code_simp


section \<open>The claims\<close>

subsection \<open>C1: what calculate\_metrics reads of the object\<close>

text \<open>
  C1 says that two calls of \<^verbatim>\<open>calculate_metrics\<close> with the same three inputs
  return the same record whatever the history holds and however long it is, the sequence
  number being assigned by the caller. Line 54 assigns it inside the method,
  \<^verbatim>\<open>'timestamp': len(self.history) + 1\<close>, so the record changes with the length of
  the history: a call on a fresh tracker and the same call after one measurement return
  different records.
\<close>

theorem calculate_metrics_history_counterexample:
  "calculate_metrics (init ''c'') (Fin 0) (Fin 0) (Fin 0) \<noteq>
   calculate_metrics (snd (add_measurement (init ''c'') (Fin 7) (Fin 3) (Fin 2)))
     (Fin 0) (Fin 0) (Fin 0)"
  by (simp add: calculate_metrics_fields add_measurement_snd)

text \<open>
  C1 as amended: \<^verbatim>\<open>calculate_metrics\<close> changes nothing and reads the history only
  through its length. With the same inputs, the record for a history \<open>h\<close> is the
  record for any other history with the field \<open>timestamp\<close> set to the length of
  \<open>h\<close> plus one: every other field is the same whatever the history holds, and
  histories of equal length give equal records.
\<close>

theorem calculate_metrics_reads_history_length:
  "calculate_metrics (self\<lparr> history := h \<rparr>) s d m =
     (calculate_metrics self s d m)\<lparr> timestamp := int (length h) + 1 \<rparr>"
  by (simp add: calculate_metrics_fields)

subsection \<open>C2: add\_measurement\<close>

text \<open>
  C2 says that \<^verbatim>\<open>add_measurement\<close> returns the appended record to the caller.
  The method ends after \<^verbatim>\<open>self.history.append(metrics)\<close> without a
  \<^verbatim>\<open>return\<close>, so the caller receives \<^verbatim>\<open>None\<close>, which is not the record
  that was appended.
\<close>

theorem add_measurement_return_counterexample:
  "fst (add_measurement (init ''c'') (Fin 7) (Fin 3) (Fin 2)) \<noteq>
   PyObj (last (history (snd (add_measurement (init ''c'') (Fin 7) (Fin 3) (Fin 2)))))"
  by (simp add: add_measurement_def)

text \<open>
  C2 as amended: for every triple, \<^verbatim>\<open>add_measurement\<close> returns
  \<^verbatim>\<open>None\<close>, and leaves the object as it was but for the history, which has grown
  by exactly one entry at its end: the record of \<^verbatim>\<open>calculate_metrics\<close> for the
  triple, with \<open>timestamp\<close> the former length plus one. It is a total function: there
  is no input on which it fails.
\<close>

theorem add_measurement_appends:
  "add_measurement self s d m =
     (PyNone, self\<lparr> history := history self @ [calculate_metrics self s d m] \<rparr>)
   \<and> timestamp (calculate_metrics self s d m) = int (length (history self)) + 1
   \<and> length (history (snd (add_measurement self s d m))) = length (history self) + 1"
  by (simp add: add_measurement_def calculate_metrics_fields)

subsection \<open>C3: inputs that are not finite\<close>

text \<open>
  C3 says that NaN and the infinities are rejected with an error before clamping. The
  method has no check and no \<^verbatim>\<open>raise\<close>: \<^verbatim>\<open>min(10, nan)\<close> is 10, because
  \<^verbatim>\<open>nan < 10\<close> is false, and the call returns the record for satisfaction 10.
\<close>

theorem nan_input_counterexample:
  "calculate_metrics (init ''c'') NaN (Fin 0) (Fin 0) =
     \<lparr> timestamp = 1, satisfaction = 10, true_satisfaction = 10, dependency = 0,
       manipulation = 0, emotional_vulnerability = 0, autonomy = 10, power_imbalance = 0,
       health_score = 100, loyalty_state = ''Healthy'', risk_factors = [] \<rparr>"
  by (simp add: calculate_metrics_fields raw_values_0_0 raw_true_satisfaction_10_0
      raw_health_score_10_0_0 py_round_numerals init_def)

text \<open>
  C3 as amended: \<^verbatim>\<open>calculate_metrics\<close> rejects no input. A NaN or a positive
  infinity is clamped to 10 and a negative infinity to 0 by
  \<^verbatim>\<open>max(0, min(10, x))\<close>, and for all inputs the record returned is the record
  for the clamped inputs.
\<close>

theorem non_finite_inputs_are_clamped:
  "py_max (Fin 0) (py_min (Fin 10) NaN) = Fin 10
   \<and> py_max (Fin 0) (py_min (Fin 10) PosInf) = Fin 10
   \<and> py_max (Fin 0) (py_min (Fin 10) NegInf) = Fin 0
   \<and> calculate_metrics self s d m =
       calculate_metrics self (Fin (clamp s)) (Fin (clamp d)) (Fin (clamp m))"
proof -
  have "calculate_metrics self s d m =
        calculate_metrics self (Fin (clamp s)) (Fin (clamp d)) (Fin (clamp m))"
    by (simp only: calculate_metrics_fields clamp_idem)
  moreover have "py_max (Fin 0) (py_min (Fin 10) NaN) = Fin 10"
    "py_max (Fin 0) (py_min (Fin 10) PosInf) = Fin 10"
    "py_max (Fin 0) (py_min (Fin 10) NegInf) = Fin 0"
    by (simp_all add: py_max_def py_min_def)
  ultimately show ?thesis
    by (simp only: simp_thms)
qed

subsection \<open>C4: the ranges of the derived metrics\<close>

text \<open>
  C4: for all finite inputs, the record returned has \<open>true_satisfaction\<close>,
  \<open>autonomy\<close>, \<open>emotional_vulnerability\<close> and \<open>power_imbalance\<close> between 0 and 10
  and \<open>health_score\<close> between 0 and 100. The fields are the rounded values, as lines
  56 to 62 store them.
\<close>

theorem range_invariants:
  "(let r = calculate_metrics self (Fin s) (Fin d) (Fin m)
    in 0 \<le> true_satisfaction r \<and> true_satisfaction r \<le> 10
       \<and> 0 \<le> autonomy r \<and> autonomy r \<le> 10
       \<and> 0 \<le> emotional_vulnerability r \<and> emotional_vulnerability r \<le> 10
       \<and> 0 \<le> power_imbalance r \<and> power_imbalance r \<le> 10
       \<and> 0 \<le> health_score r \<and> health_score r \<le> 100)"
proof -
  let ?s = "clamp (Fin s)" and ?d = "clamp (Fin d)" and ?m = "clamp (Fin m)"
  have c: "0 \<le> ?s" "?s \<le> 10" "0 \<le> ?d" "?d \<le> 10" "0 \<le> ?m" "?m \<le> 10"
    using clamp_range by blast+
  have k: "fl (of_int 10) = of_int 10" "fl (of_int 100) = of_int 100"
    by (simp_all add: fl_numerals)
  have ts: "0 \<le> py_round (raw_true_satisfaction ?s ?m) 2 \<and>
            py_round (raw_true_satisfaction ?s ?m) 2 \<le> 10"
    using raw_true_satisfaction_range [OF c(1,2,5,6)]
      py_round_nonneg [of _ 2] py_round_le [of _ 10 2, OF _ _ k(1)] by simp
  have au: "0 \<le> py_round (raw_autonomy ?d ?m) 2 \<and> py_round (raw_autonomy ?d ?m) 2 \<le> 10"
    using raw_autonomy_range [OF c(3,4,5,6)]
      py_round_nonneg [of _ 2] py_round_le [of _ 10 2, OF _ _ k(1)] by simp
  have ev: "0 \<le> py_round (raw_emotional_vulnerability ?d ?m) 2 \<and>
            py_round (raw_emotional_vulnerability ?d ?m) 2 \<le> 10"
    using raw_emotional_vulnerability_range [OF c(3,5)]
      py_round_nonneg [of _ 2] py_round_le [of _ 10 2, OF _ _ k(1)] by simp
  have pi: "0 \<le> py_round (raw_power_imbalance ?d ?m) 2 \<and>
            py_round (raw_power_imbalance ?d ?m) 2 \<le> 10"
    using raw_power_imbalance_range [OF c(3,5)]
      py_round_nonneg [of _ 2] py_round_le [of _ 10 2, OF _ _ k(1)] by simp
  have hs: "0 \<le> py_round (raw_health_score ?s ?d ?m) 1 \<and>
            py_round (raw_health_score ?s ?d ?m) 1 \<le> 100"
    using raw_health_score_range [OF c]
      py_round_nonneg [of _ 1] py_round_le [of _ 100 1, OF _ _ k(2)] by simp
  show ?thesis
    unfolding Let_def calculate_metrics_fields metrics.select_convs
    using ts au ev pi hs by blast
qed

subsection \<open>C5: the health score is monotone in each input\<close>

text \<open>
  C5: with the other two inputs fixed, a larger satisfaction never gives a smaller
  \<open>health_score\<close>, and a larger dependency or a larger manipulation never gives a
  larger \<open>health_score\<close>. The inputs are compared with Python's \<^verbatim>\<open><\<close>, so
  the infinities are covered; \<open>health_score\<close> is the rounded field of the record
  returned.
\<close>

theorem health_score_monotone:
  "(py_lt s s' \<longrightarrow>
      health_score (calculate_metrics self s d m) \<le> health_score (calculate_metrics self s' d m))
   \<and> (py_lt d d' \<longrightarrow>
      health_score (calculate_metrics self s d' m) \<le> health_score (calculate_metrics self s d m))
   \<and> (py_lt m m' \<longrightarrow>
      health_score (calculate_metrics self s d m') \<le> health_score (calculate_metrics self s d m))"
proof (intro conjI impI)
  note r = clamp_range [of s] clamp_range [of d] clamp_range [of m]
  have hs: "0 \<le> raw_health_score (clamp a) (clamp b) (clamp c)" for a b c
    using raw_health_score_range [of "clamp a" "clamp b" "clamp c"]
      clamp_range [of a] clamp_range [of b] clamp_range [of c] by simp
  {
    assume "py_lt s s'"
    then have "clamp s \<le> clamp s'"
      by (rule clamp_mono)
    then have "raw_health_score (clamp s) (clamp d) (clamp m)
               \<le> raw_health_score (clamp s') (clamp d) (clamp m)"
      using r by (intro raw_health_score_mono_s) simp_all
    then show "health_score (calculate_metrics self s d m)
               \<le> health_score (calculate_metrics self s' d m)"
      unfolding health_score_calculate_metrics by (intro py_round_mono hs)
  }
  {
    assume "py_lt d d'"
    then have "clamp d \<le> clamp d'"
      by (rule clamp_mono)
    then have "raw_health_score (clamp s) (clamp d') (clamp m)
               \<le> raw_health_score (clamp s) (clamp d) (clamp m)"
      using r clamp_range [of d'] by (intro raw_health_score_antimono) simp_all
    then show "health_score (calculate_metrics self s d' m)
               \<le> health_score (calculate_metrics self s d m)"
      unfolding health_score_calculate_metrics by (intro py_round_mono hs)
  }
  {
    assume "py_lt m m'"
    then have "clamp m \<le> clamp m'"
      by (rule clamp_mono)
    then have "raw_health_score (clamp s) (clamp d) (clamp m')
               \<le> raw_health_score (clamp s) (clamp d) (clamp m)"
      using r clamp_range [of m'] by (intro raw_health_score_antimono) simp_all
    then show "health_score (calculate_metrics self s d m')
               \<le> health_score (calculate_metrics self s d m)"
      unfolding health_score_calculate_metrics by (intro py_round_mono hs)
  }
qed

theorem health_score_monotone_witness:
  "py_lt (Fin 2) (Fin 7)
   \<and> health_score (calculate_metrics (init ''c'') (Fin 2) (Fin 3) (Fin 2))
       \<le> health_score (calculate_metrics (init ''c'') (Fin 7) (Fin 3) (Fin 2))
   \<and> py_lt (Fin 3) (Fin 8)
   \<and> health_score (calculate_metrics (init ''c'') (Fin 2) (Fin 8) (Fin 2))
       \<le> health_score (calculate_metrics (init ''c'') (Fin 2) (Fin 3) (Fin 2))
   \<and> py_lt (Fin 2) (Fin 9)
   \<and> health_score (calculate_metrics (init ''c'') (Fin 2) (Fin 3) (Fin 9))
       \<le> health_score (calculate_metrics (init ''c'') (Fin 2) (Fin 3) (Fin 2))"
  using health_score_monotone [where s = "Fin 2" and s' = "Fin 7" and d = "Fin 3"
      and d' = "Fin 8" and m = "Fin 2" and m' = "Fin 9" and self = "init ''c''"]
  by simp

subsection \<open>C6: the loyalty state\<close>

text \<open>
  C6: the loyalty state is the first state of the table, in the order Healthy, Stable,
  At Risk, Unstable, Toxic, whose threshold is at most the health score (the double of
  line 32, before \<^verbatim>\<open>round\<close>, which the loop of line 48 compares: with the inputs
  8, 7.25 and 0.25 it lies just below 60 and the state is \<^verbatim>\<open>"At Risk"\<close>); with no
  such state the result is
  the default \<^verbatim>\<open>"Toxic"\<close>; and for every health score from 0 to 100 exactly one
  entry of the table is selected: its threshold is at most the score, the score is below
  the threshold of every entry before it, and its name is the state returned.
\<close>

theorem state_classification:
  "loyalty_state (calculate_metrics self s d m) =
     determine_state (loyalty_states self)
       (raw_health_score (clamp s) (clamp d) (clamp m)) ''Toxic''
   \<and> map fst (loyalty_states (init nm)) =
       [''Healthy'', ''Stable'', ''At Risk'', ''Unstable'', ''Toxic'']
   \<and> determine_state tbl hs dflt =
       (case find (\<lambda>e. of_int (threshold (snd e)) \<le> hs) tbl of
          None \<Rightarrow> dflt | Some e \<Rightarrow> fst e)
   \<and> ((\<forall>e\<in>set tbl. hs < of_int (threshold (snd e))) \<longrightarrow>
        determine_state tbl hs ''Toxic'' = ''Toxic'')
   \<and> (0 \<le> hs \<and> hs \<le> 100 \<longrightarrow>
        (\<exists>!i. i < length (loyalty_states (init nm))
           \<and> of_int (threshold (snd (loyalty_states (init nm) ! i))) \<le> hs
           \<and> (\<forall>j<i. hs < of_int (threshold (snd (loyalty_states (init nm) ! j))))
           \<and> determine_state (loyalty_states (init nm)) hs ''Toxic'' =
               fst (loyalty_states (init nm) ! i)))"
proof (intro conjI impI)
  show "loyalty_state (calculate_metrics self s d m) =
        determine_state (loyalty_states self)
          (raw_health_score (clamp s) (clamp d) (clamp m)) ''Toxic''"
    by (simp add: calculate_metrics_fields)
next
  show "map fst (loyalty_states (init nm)) =
        [''Healthy'', ''Stable'', ''At Risk'', ''Unstable'', ''Toxic'']"
    by (simp add: init_def)
next
  show "determine_state tbl hs dflt =
        (case find (\<lambda>e. of_int (threshold (snd e)) \<le> hs) tbl of
           None \<Rightarrow> dflt | Some e \<Rightarrow> fst e)"
    by (rule determine_state_find)
next
  assume "\<forall>e\<in>set tbl. hs < of_int (threshold (snd e))"
  then have "find (\<lambda>e. of_int (threshold (snd e)) \<le> hs) tbl = None"
    by (auto simp: find_None_iff)
  then show "determine_state tbl hs ''Toxic'' = ''Toxic''"
    by (simp add: determine_state_find)
next
  let ?tbl = "loyalty_states (init nm)"
  let ?P = "\<lambda>e. real_of_int (threshold (snd e)) \<le> hs"
  assume "0 \<le> hs \<and> hs \<le> 100"
  then have "\<exists>e\<in>set ?tbl. ?P e"
    by (simp add: init_floor_matches)
  from first_match_unique [of ?tbl ?P, OF this]
  obtain i where i: "i < length ?tbl" "?P (?tbl ! i)" "\<forall>j<i. \<not> ?P (?tbl ! j)"
      "find ?P ?tbl = Some (?tbl ! i)"
    and uniq: "\<And>k. k < length ?tbl \<and> ?P (?tbl ! k) \<and> (\<forall>j<k. \<not> ?P (?tbl ! j))
                  \<and> find ?P ?tbl = Some (?tbl ! k) \<Longrightarrow> k = i"
    by blast
  show "\<exists>!i. i < length ?tbl \<and> ?P (?tbl ! i)
          \<and> (\<forall>j<i. hs < of_int (threshold (snd (?tbl ! j))))
          \<and> determine_state ?tbl hs ''Toxic'' = fst (?tbl ! i)"
  proof (rule ex1I [of _ i])
    show "i < length ?tbl \<and> ?P (?tbl ! i)
          \<and> (\<forall>j<i. hs < of_int (threshold (snd (?tbl ! j))))
          \<and> determine_state ?tbl hs ''Toxic'' = fst (?tbl ! i)"
      using i by (simp add: determine_state_find not_le)
  next
    fix k
    assume k: "k < length ?tbl \<and> ?P (?tbl ! k)
          \<and> (\<forall>j<k. hs < of_int (threshold (snd (?tbl ! j))))
          \<and> determine_state ?tbl hs ''Toxic'' = fst (?tbl ! k)"
    show "k = i"
    proof (rule ccontr)
      assume "k \<noteq> i"
      then consider "k < i" | "i < k" by linarith
      then show False
      proof cases
        case 1
        with i(3) k show False by blast
      next
        case 2
        with k have "hs < of_int (threshold (snd (?tbl ! i)))" by blast
        with i(2) show False by simp
      qed
    qed
  qed
qed

theorem state_classification_witness:
  "(0::real) \<le> 70 \<and> (70::real) \<le> 100
   \<and> determine_state (loyalty_states (init ''c'')) 70 ''Toxic'' = ''Stable''
   \<and> (\<exists>!i. i < length (loyalty_states (init ''c''))
         \<and> of_int (threshold (snd (loyalty_states (init ''c'') ! i))) \<le> (70::real)
         \<and> (\<forall>j<i. (70::real) < of_int (threshold (snd (loyalty_states (init ''c'') ! j))))
         \<and> determine_state (loyalty_states (init ''c'')) 70 ''Toxic'' =
             fst (loyalty_states (init ''c'') ! i))
   \<and> (70::real) < of_int (threshold \<lparr> color = ''#2ecc71'', threshold = 75 \<rparr>)
   \<and> determine_state [(''Healthy'', \<lparr> color = ''#2ecc71'', threshold = 75 \<rparr>)] 70 ''Toxic''
       = ''Toxic''
   \<and> loyalty_state (calculate_metrics (init ''c'') (Fin 8) (Fin (29 / 4)) (Fin (1 / 4)))
       = ''At Risk''"
proof -
  note a = state_classification [where hs = 70 and nm = "''c''"
      and tbl = "[(''Healthy'', \<lparr> color = ''#2ecc71'', threshold = 75 \<rparr>)]"
      and self = "init ''c''" and s = "Fin 8" and d = "Fin (29 / 4)" and m = "Fin (1 / 4)"
      and dflt = "''Toxic''"]
  have "determine_state (loyalty_states (init ''c'')) 70 ''Toxic'' = ''Stable''"
    by (simp add: determine_state_init)
  moreover have "determine_state (loyalty_states (init ''c''))
      (raw_health_score 8 (29 / 4) (1 / 4)) ''Toxic'' = ''At Risk''"
    using raw_health_score_8_725_025 by (simp add: determine_state_init)
  ultimately show ?thesis
    using a by simp
qed

subsection \<open>C7: the timestamps of the history\<close>

text \<open>
  C7: after \<open>N\<close> calls of \<^verbatim>\<open>add_measurement\<close> on a new tracker the history
  has length \<open>N\<close> and its record at index \<open>i\<close> has the timestamp \<open>i + 1\<close>; and
  no call changes or removes an entry that is already there: the history before any
  sequence of calls is a prefix of the history after it.
\<close>

theorem sequence_invariant:
  "length (history (add_all (init nm) xs)) = length xs
   \<and> (\<forall>i<length xs. timestamp (history (add_all (init nm) xs) ! i) = int i + 1)
   \<and> take (length (history self)) (history (add_all self ys)) = history self"
proof (intro conjI allI impI)
  show "length (history (add_all (init nm) xs)) = length xs"
    by (simp add: add_all_length init_def)
next
  fix i
  assume i: "i < length xs"
  have "map timestamp (history (add_all (init nm) xs)) =
        map (\<lambda>i. int i + 1) [0..<length (history (init nm)) + length xs]"
    by (rule add_all_timestamps) (simp add: init_def)
  then have eq: "map timestamp (history (add_all (init nm) xs)) =
        map (\<lambda>i. int i + 1) [0..<length xs]"
    by (simp add: init_def)
  have len: "length (history (add_all (init nm) xs)) = length xs"
    by (simp add: add_all_length init_def)
  have "timestamp (history (add_all (init nm) xs) ! i) =
        map timestamp (history (add_all (init nm) xs)) ! i"
    using i len by simp
  also have "\<dots> = int i + 1"
    using i by (simp only: eq) simp
  finally show "timestamp (history (add_all (init nm) xs) ! i) = int i + 1" .
next
  show "take (length (history self)) (history (add_all self ys)) = history self"
    by (rule add_all_prefix)
qed

theorem sequence_invariant_witness:
  "(1::nat) < length [(Fin 7, Fin 3, Fin 2), (Fin 2, Fin 8, Fin 7), (NaN, Fin 0, Fin 0)]
   \<and> length (history (add_all (init ''c'')
        [(Fin 7, Fin 3, Fin 2), (Fin 2, Fin 8, Fin 7), (NaN, Fin 0, Fin 0)])) = 3
   \<and> timestamp (history (add_all (init ''c'')
        [(Fin 7, Fin 3, Fin 2), (Fin 2, Fin 8, Fin 7), (NaN, Fin 0, Fin 0)]) ! 1) = 2"
  using sequence_invariant [where nm = "''c''"
      and xs = "[(Fin 7, Fin 3, Fin 2), (Fin 2, Fin 8, Fin 7), (NaN, Fin 0, Fin 0)]"
      and self = "init ''c''" and ys = "[]"]
  by simp

subsection \<open>C8: the call with (0, 0, 0)\<close>

text \<open>
  C8 says that \<^verbatim>\<open>calculate_metrics(0, 0, 0)\<close> returns an empty list of risk
  factors. Its \<open>true_satisfaction\<close> is 0, which is below 4, so line 43 appends
  \<^verbatim>\<open>"Low Satisfaction"\<close>.
\<close>

theorem scenario_0_0_0_counterexample:
  "risk_factors (calculate_metrics (init ''c'') (Fin 0) (Fin 0) (Fin 0)) \<noteq> []"
  by (simp add: calculate_metrics_0_0_0)

text \<open>
  C8 as amended: on a tracker with any number of measurements,
  \<^verbatim>\<open>calculate_metrics(0, 0, 0)\<close> returns \<open>true_satisfaction\<close> 0, \<open>autonomy\<close> 10,
  \<open>power_imbalance\<close> 0, \<open>health_score\<close> 70, the state \<^verbatim>\<open>"Stable"\<close> and the
  risk factors \<^verbatim>\<open>["Low Satisfaction"]\<close>.
\<close>

theorem scenario_0_0_0:
  "(let r = calculate_metrics (add_all (init nm) xs) (Fin 0) (Fin 0) (Fin 0)
    in true_satisfaction r = 0 \<and> autonomy r = 10 \<and> power_imbalance r = 0
       \<and> health_score r = 70 \<and> loyalty_state r = ''Stable''
       \<and> risk_factors r = [''Low Satisfaction''])"
  by (simp add: calculate_metrics_0_0_0 add_all_loyalty_states determine_state_init)

subsection \<open>C9: the call with (2, 8, 7)\<close>

text \<open>
  C9: on a tracker with any number of measurements, \<^verbatim>\<open>calculate_metrics(2, 8, 7)\<close>
  returns a record with manipulation 7, above 6, and dependency 8, above 7, whose risk
  factors include \<^verbatim>\<open>"High Manipulation"\<close> and \<^verbatim>\<open>"High Dependency"\<close>, whose
  \<open>health_score\<close> is below 20, so well below 40, and whose state is \<^verbatim>\<open>"Toxic"\<close>.
\<close>

theorem scenario_2_8_7:
  "(let r = calculate_metrics (add_all (init nm) xs) (Fin 2) (Fin 8) (Fin 7)
    in manipulation r = 7 \<and> 6 < manipulation r \<and> dependency r = 8 \<and> 7 < dependency r
       \<and> ''High Manipulation'' \<in> set (risk_factors r)
       \<and> ''High Dependency'' \<in> set (risk_factors r)
       \<and> health_score r < 20 \<and> health_score r < 40
       \<and> loyalty_state r = ''Toxic'')"
  by (simp add: calculate_metrics_2_8_7 add_all_loyalty_states determine_state_init)

subsection \<open>C10: what add\_measurement leaves unchanged\<close>

text \<open>
  C10: for every triple, \<^verbatim>\<open>add_measurement\<close> leaves the name and the table of
  loyalty states (names, colours and thresholds) as they were, and the history after the
  call starts with the history before it, entry for entry, followed by exactly one new
  record.
\<close>

theorem add_measurement_frame:
  "name (snd (add_measurement self s d m)) = name self
   \<and> loyalty_states (snd (add_measurement self s d m)) = loyalty_states self
   \<and> take (length (history self)) (history (snd (add_measurement self s d m))) = history self
   \<and> length (history (snd (add_measurement self s d m))) = length (history self) + 1"
  by (simp add: add_measurement_snd)

end
